theory Spec2Isabelle
  imports Complex_Main "HOL-Library.Log_Nat"
begin

section \<open>The snake game: data model\<close>

text \<open>
  The game lives in one React component, \<open>App\<close>. Its module-level constants, its two
  enumerations and its coordinate type are modelled one to one. A JavaScript \<open>number\<close>
  that only ever holds a grid index is an \<open>int\<close>. The outcome of \<open>Math.random()\<close> is a
  \<open>real\<close> that is a double, and what is computed from it is rounded to a double as
  IEEE 754 arithmetic does. The percentage of the speed curve is a \<open>real\<close>.
\<close>

definition gridRows :: int where
  "gridRows = 20"

definition gridColumns :: int where
  "gridColumns = 20"

datatype GameState = Playing | Win | Loss

datatype Direction = North | South | West | East

record Coordinate =
  x :: int
  y :: int

text \<open>
  The five \<open>useState\<close> cells of \<open>App\<close>, in one record. Each setter call of the source
  is a field update.
\<close>

record App =
  gameState :: GameState
  currentDirection :: Direction
  lastDirection :: Direction
  snake :: "Coordinate list"
  food :: Coordinate

text \<open>
  Reading a field of \<open>undefined\<close> throws a \<open>TypeError\<close>; that is the only way the
  modelled code can fail.
\<close>

datatype error = TypeError

section \<open>Geometry helpers\<close>

subsection \<open>Double arithmetic\<close>

text \<open>
  Rounding to the nearest integer, a tie going to the even one.
\<close>

definition roundHalfEven :: "real \<Rightarrow> int" where
  "roundHalfEven t =
     (let n = \<lfloor>t\<rfloor>; d = t - of_int n
      in if d < 1 / 2 then n
         else if 1 / 2 < d then n + 1
         else if even n then n else n + 1)"

text \<open>
  The doubles around \<open>v\<close> are the multiples of \<open>2 powi ulpExponent v\<close>: for
  \<open>2 powi e \<le> \<bar>v\<bar> < 2 powi (e + 1)\<close> that exponent is \<open>e - 52\<close> (53 significant bits),
  and never less than \<open>- 1074\<close> (the subnormal numbers, below \<open>2 powi - 1022\<close>). The
  position of the leading bit is read off \<open>\<bar>v\<bar>\<close> scaled by \<open>2 ^ 1074\<close>.
\<close>

definition ulpExponent :: "real \<Rightarrow> int" where
  "ulpExponent v = max (bitlen \<lfloor>\<bar>v\<bar> * 2 ^ 1074\<rfloor> - 1075) (- 1022) - 52"

text \<open>
  The result of an arithmetic operation whose exact value is \<open>v\<close>: the double nearest to
  \<open>v\<close>, a tie going to the even significand. Results that reach \<open>2 ^ 1024\<close> are
  \<open>Infinity\<close> in the code; none arises from the operands used here.
\<close>

definition roundDouble :: "real \<Rightarrow> real" where
  "roundDouble v =
     of_int (roundHalfEven (v / 2 powi ulpExponent v)) * 2 powi ulpExponent v"

definition isDouble :: "real \<Rightarrow> bool" where
  "isDouble v = (\<bar>v\<bar> < 2 ^ 1024 \<and> roundDouble v = v)"

subsection \<open>Coordinates\<close>

text \<open>
  \<open>Math.floor(Math.random() * (max - min + 1) + min)\<close>, with the outcome \<open>r\<close> of
  \<open>Math.random()\<close> as a parameter. \<open>max - min + 1\<close> is an integer and exact; the product
  and the sum are each rounded to a double.
\<close>

definition getRandomNumberFromRange :: "real \<Rightarrow> int \<Rightarrow> int \<Rightarrow> int" where
  "getRandomNumberFromRange r mn mx =
     \<lfloor>roundDouble (roundDouble (r * of_int (mx - mn + 1)) + of_int mn)\<rfloor>"

text \<open>
  The object literal evaluates its \<open>x\<close> property first, so the first outcome of the
  random source goes to \<open>x\<close> and the second to \<open>y\<close>.
\<close>

definition getRandomCoordinate :: "real \<times> real \<Rightarrow> Coordinate" where
  "getRandomCoordinate rnd =
     \<lparr>x = getRandomNumberFromRange (fst rnd) 0 (gridRows - 1),
      y = getRandomNumberFromRange (snd rnd) 0 (gridColumns - 1)\<rparr>"

text \<open>
  \<open>Math.random()\<close> returns a double in the half-open interval from 0 to 1.
\<close>

definition validRandom :: "real \<times> real \<Rightarrow> bool" where
  "validRandom rnd =
     (isDouble (fst rnd) \<and> 0 \<le> fst rnd \<and> fst rnd < 1
      \<and> isDouble (snd rnd) \<and> 0 \<le> snd rnd \<and> snd rnd < 1)"

text \<open>
  The double bitwise negation \<open>~~v\<close>: truncate towards zero, then wrap into the signed
  32-bit range.
\<close>

definition toInt32 :: "real \<Rightarrow> int" where
  "toInt32 v =
     (let t = (if 0 \<le> v then \<lfloor>v\<rfloor> else \<lceil>v\<rceil>);
          m = t mod 2 ^ 32
      in if 2 ^ 31 \<le> m then m - 2 ^ 32 else m)"

definition getCenterCoordinate :: Coordinate where
  "getCenterCoordinate =
     \<lparr>x = toInt32 (of_int gridRows / 2), y = toInt32 (of_int gridColumns / 2)\<rparr>"

fun getNextCoordinate :: "Coordinate \<Rightarrow> Direction \<Rightarrow> Coordinate" where
  "getNextCoordinate current North = \<lparr>x = x current, y = y current - 1\<rparr>"
| "getNextCoordinate current South = \<lparr>x = x current, y = y current + 1\<rparr>"
| "getNextCoordinate current West = \<lparr>x = x current - 1, y = y current\<rparr>"
| "getNextCoordinate current East = \<lparr>x = x current + 1, y = y current\<rparr>"

definition isSameCoordinate :: "Coordinate \<Rightarrow> Coordinate \<Rightarrow> bool" where
  "isSameCoordinate a b = (x a = x b \<and> y a = y b)"

definition isOutOfBounds :: "Coordinate \<Rightarrow> bool" where
  "isOutOfBounds c = (x c < 0 \<or> x c \<ge> gridColumns \<or> y c < 0 \<or> y c \<ge> gridRows)"

section \<open>Speed curve\<close>

definition getGameSpeed :: "real \<Rightarrow> nat" where
  "getGameSpeed snakeLength =
     (let gridCells = gridRows * gridColumns;
          percentageCompleted = (snakeLength / of_int gridCells) * 100
      in if percentageCompleted < 5 then 200
         else if percentageCompleted < 15 then 180
         else if percentageCompleted < 30 then 155
         else if percentageCompleted < 50 then 125
         else if percentageCompleted < 75 then 90
         else 50)"

section \<open>Game state machine\<close>

text \<open>
  \<open>Array.prototype.slice(start, end)\<close>: a negative index counts from the end, and both
  indices are clamped to the array.
\<close>

definition slice :: "'a list \<Rightarrow> int \<Rightarrow> int \<Rightarrow> 'a list" where
  "slice xs start end =
     (let n = int (length xs);
          k = (if start < 0 then max (n + start) 0 else min start n);
          final = (if end < 0 then max (n + end) 0 else min end n)
      in take (nat (final - k)) (drop (nat k) xs))"

definition initialState :: "real \<times> real \<Rightarrow> App" where
  "initialState rnd =
     \<lparr>gameState = Playing, currentDirection = East, lastDirection = East,
      snake = [getCenterCoordinate], food = getRandomCoordinate rnd\<rparr>"

text \<open>
  One call of \<open>gameTick\<close>. The random source is consulted only when food is captured.
  \<open>snake[0]\<close> of an empty snake is \<open>undefined\<close>, and \<open>getNextCoordinate\<close> then throws
  on \<open>current.x\<close>.
\<close>

definition gameTick :: "real \<times> real \<Rightarrow> App \<Rightarrow> error + App" where
  "gameTick rnd s =
     (case snake s of
        [] \<Rightarrow> Inl TypeError
      | h # _ \<Rightarrow>
         (let s1 = s\<lparr>lastDirection := currentDirection s\<rparr>;
              nextCoordinate = getNextCoordinate h (currentDirection s)
          in if isOutOfBounds nextCoordinate then Inr (s1\<lparr>gameState := Loss\<rparr>)
             else if list_ex (\<lambda>c. isSameCoordinate c nextCoordinate) (snake s)
               then Inr (s1\<lparr>gameState := Loss\<rparr>)
             else if isSameCoordinate (food s) nextCoordinate
               then Inr (s1\<lparr>food := getRandomCoordinate rnd,
                            snake := \<lparr>x = x (food s), y = y (food s)\<rparr> # snake s\<rparr>)
             else Inr (s1\<lparr>snake := nextCoordinate
                             # slice (snake s) 0 (int (length (snake s)) - 1)\<rparr>)))"

section \<open>Input handler\<close>

text \<open>
  The \<open>keydown\<close> listener, on the \<open>code\<close> of the event. A restart draws a fresh food
  coordinate from the random source.
\<close>

definition onKeyDown :: "string \<Rightarrow> real \<times> real \<Rightarrow> App \<Rightarrow> App" where
  "onKeyDown code rnd s =
     (if code = ''Space'' \<and> gameState s \<noteq> Playing
        then s\<lparr>gameState := Playing, currentDirection := East, lastDirection := East,
               snake := [getCenterCoordinate], food := getRandomCoordinate rnd\<rparr>
      else if code = ''ArrowUp'' \<and> lastDirection s \<noteq> South
        then s\<lparr>currentDirection := North\<rparr>
      else if code = ''ArrowDown'' \<and> lastDirection s \<noteq> North
        then s\<lparr>currentDirection := South\<rparr>
      else if code = ''ArrowLeft'' \<and> lastDirection s \<noteq> East
        then s\<lparr>currentDirection := West\<rparr>
      else if code = ''ArrowRight'' \<and> lastDirection s \<noteq> West
        then s\<lparr>currentDirection := East\<rparr>
      else s)"

section \<open>Ticking driver\<close>

text \<open>
  The delay that \<open>App\<close> hands to \<open>useInterval\<close>: \<open>null\<close> (no interval is armed, so
  \<open>gameTick\<close> is not called) unless the game is being played.
\<close>

definition tickDelay :: "App \<Rightarrow> nat option" where
  "tickDelay s =
     (if gameState s = Playing then Some (getGameSpeed (real (length (snake s)))) else None)"

text \<open>
  The states the running component can be in: the initial one, and those that a tick of
  the armed interval or a key event leads to.
\<close>

inductive reachable :: "App \<Rightarrow> bool" where
  reachable_init: "validRandom rnd \<Longrightarrow> reachable (initialState rnd)"
| reachable_tick: "reachable s \<Longrightarrow> tickDelay s \<noteq> None \<Longrightarrow> validRandom rnd \<Longrightarrow>
     gameTick rnd s = Inr s' \<Longrightarrow> reachable s'"
| reachable_key: "reachable s \<Longrightarrow> validRandom rnd \<Longrightarrow> reachable (onKeyDown code rnd s)"

section \<open>The invariant of the snake\<close>

text \<open>
  What every tick and every key event maintains: the snake has a head, its segments are
  pairwise distinct, and all of them lie on the grid.
\<close>

definition snakeInv :: "App \<Rightarrow> bool" where
  "snakeInv s =
     (snake s \<noteq> [] \<and> distinct (snake s) \<and> list_all (\<lambda>c. \<not> isOutOfBounds c) (snake s))"

section \<open>Rounding to a double\<close>

lemma roundHalfEven_le: "t < of_int m + 1 / 2 \<Longrightarrow> roundHalfEven t \<le> m"
  unfolding roundHalfEven_def Let_def by (auto; linarith)

lemma roundHalfEven_ge: "of_int m - 1 / 2 < t \<Longrightarrow> m \<le> roundHalfEven t"
  unfolding roundHalfEven_def Let_def by (auto; linarith)

lemma roundHalfEven_upper: "of_int (roundHalfEven t) \<le> t + 1 / 2"
  unfolding roundHalfEven_def Let_def by (auto; linarith)

lemma roundHalfEven_nonneg: "0 \<le> t \<Longrightarrow> 0 \<le> roundHalfEven t"
  using roundHalfEven_ge [of 0 t] by simp

lemma roundHalfEven_of_int: "roundHalfEven (of_int m) = m"
  by (simp add: roundHalfEven_def)

lemma two_powi_scaled:
  assumes "- 1074 \<le> k"
  shows "(2::real) powi k * 2 ^ 1074 = 2 ^ nat (k + 1074)"
proof -
  have "(2::real) powi k * 2 ^ 1074 = 2 powi k * 2 powi 1074"
    by simp
  also have "\<dots> = 2 powi (k + 1074)"
    by (simp add: power_int_add)
  also have "\<dots> = 2 ^ nat (k + 1074)"
    using assms by (simp add: power_int_nonneg_exp)
  finally show ?thesis .
qed

lemma ulpExponent_le:
  assumes "\<bar>v\<bar> < 2 powi (e + 1)" and "- 1022 \<le> e"
  shows "ulpExponent v \<le> e - 52"
proof -
  let ?n = "\<lfloor>\<bar>v\<bar> * 2 ^ 1074\<rfloor>"
  from assms(1) have "\<bar>v\<bar> * 2 ^ 1074 < 2 powi (e + 1) * 2 ^ 1074"
    by simp
  also have "\<dots> = 2 ^ nat (e + 1 + 1074)"
    using assms(2) by (intro two_powi_scaled) simp
  finally have "?n < 2 ^ nat (e + 1075)"
    by (simp add: floor_less_iff add.commute add.left_commute)
  then have "bitlen ?n \<le> e + 1075"
    using assms(2) by (simp add: bitlen_le_iff_power)
  with assms(2) show ?thesis
    by (simp add: ulpExponent_def)
qed

lemma ulpExponent_eq:
  assumes "2 powi e \<le> \<bar>v\<bar>" and "\<bar>v\<bar> < 2 powi (e + 1)" and "- 1022 \<le> e"
  shows "ulpExponent v = e - 52"
proof -
  let ?n = "\<lfloor>\<bar>v\<bar> * 2 ^ 1074\<rfloor>"
  have "(2::real) ^ nat (e + 1074) = 2 powi e * 2 ^ 1074"
    using assms(3) by (intro two_powi_scaled [symmetric]) simp
  also from assms(1) have "\<dots> \<le> \<bar>v\<bar> * 2 ^ 1074"
    by simp
  finally have "2 ^ nat (e + 1074) \<le> ?n"
    by (simp add: le_floor_iff)
  moreover have "nat (e + 1075) - 1 = nat (e + 1074)"
    using assms(3) by simp
  ultimately have "e + 1075 \<le> bitlen ?n"
    by (simp add: bitlen_ge_iff_power)
  then have "e - 52 \<le> ulpExponent v"
    using assms(3) by (simp add: ulpExponent_def)
  with ulpExponent_le [OF assms(2,3)] show ?thesis
    by simp
qed

lemma roundDouble_eval:
  assumes "2 powi e \<le> \<bar>v\<bar>" and "\<bar>v\<bar> < 2 powi (e + 1)" and "- 1022 \<le> e"
  shows "roundDouble v = of_int (roundHalfEven (v / 2 powi (e - 52))) * 2 powi (e - 52)"
  by (simp add: roundDouble_def ulpExponent_eq [OF assms])

lemma roundDouble_zero: "roundDouble 0 = 0"
  by (simp add: roundDouble_def roundHalfEven_def)

lemma roundDouble_nonneg: "0 \<le> v \<Longrightarrow> 0 \<le> roundDouble v"
  by (simp add: roundDouble_def roundHalfEven_nonneg)

lemma roundDouble_upper: "0 \<le> v \<Longrightarrow> roundDouble v \<le> v + 2 powi ulpExponent v / 2"
proof -
  let ?u = "(2::real) powi ulpExponent v"
  have u: "0 < ?u" by simp
  have "of_int (roundHalfEven (v / ?u)) \<le> v / ?u + 1 / 2"
    by (rule roundHalfEven_upper)
  then have "of_int (roundHalfEven (v / ?u)) * ?u \<le> (v / ?u + 1 / 2) * ?u"
    using u by (simp only: mult_le_cancel_right_pos)
  also have "\<dots> = v + ?u / 2"
    using u by (simp add: field_simps)
  finally show ?thesis
    by (simp add: roundDouble_def)
qed

lemma roundDouble_below_20:
  assumes "0 \<le> v" and "v \<le> 20 - 5 / 2 ^ 51"
  shows "roundDouble v \<le> 20 - 1 / 2 ^ 48"
proof (cases "v < 16")
  case True
  define u :: real where "u = 2 powi ulpExponent v"
  from True assms(1) have "\<bar>v\<bar> < 2 powi (3 + 1)"
    by simp
  then have "ulpExponent v \<le> 3 - 52"
    by (rule ulpExponent_le) simp
  then have "u \<le> 2 powi (3 - 52)"
    unfolding u_def by (intro power_int_increasing) simp_all
  also have "\<dots> = 1 / 2 ^ 49"
    by (simp add: power_int_minus field_simps)
  finally have "u \<le> 1 / 2 ^ 49" .
  moreover from roundDouble_upper [OF assms(1)] have "roundDouble v \<le> v + u / 2"
    by (simp only: u_def)
  ultimately show ?thesis
    using True by simp
next
  case False
  with assms have "2 powi 4 \<le> \<bar>v\<bar>" and "\<bar>v\<bar> < 2 powi (4 + 1)"
    by simp_all
  then have r: "roundDouble v = of_int (roundHalfEven (v / 2 powi (4 - 52))) * 2 powi (4 - 52)"
    by (rule roundDouble_eval) simp
  have "v / 2 powi (4 - 52) = v * 2 ^ 48"
    by (simp add: power_int_minus field_simps)
  also have "\<dots> \<le> (20 - 5 / 2 ^ 51) * 2 ^ 48"
    using assms(2) by simp
  also have "\<dots> < of_int (20 * 2 ^ 48 - 1) + 1 / 2"
    by simp
  finally have "roundHalfEven (v / 2 powi (4 - 52)) \<le> 20 * 2 ^ 48 - 1"
    by (rule roundHalfEven_le)
  then have "(of_int (roundHalfEven (v / 2 powi (4 - 52))) :: real) \<le> of_int (20 * 2 ^ 48 - 1)"
    by (simp only: of_int_le_iff)
  then have "roundDouble v \<le> of_int (20 * 2 ^ 48 - 1) * 2 powi (4 - 52)"
    unfolding r by (simp only: mult_le_cancel_right_pos zero_less_power_int zero_less_numeral)
  also have "\<dots> = 20 - 1 / 2 ^ 48"
    by (simp add: power_int_minus field_simps)
  finally show ?thesis .
qed

lemma isDouble_below_1:
  assumes "isDouble r" and "0 \<le> r" and "r < 1"
  shows "r \<le> 1 - 1 / 2 ^ 53"
proof (cases "r < 1 / 2")
  case True
  then show ?thesis by simp
next
  case False
  with assms have "2 powi (- 1) \<le> \<bar>r\<bar>" and "\<bar>r\<bar> < 2 powi (- 1 + 1)"
    by simp_all
  then have "roundDouble r = of_int (roundHalfEven (r / 2 powi (- 1 - 52))) * 2 powi (- 1 - 52)"
    by (rule roundDouble_eval) simp
  then have e: "roundDouble r = of_int (roundHalfEven (r * 2 ^ 53)) / 2 ^ 53"
    by (simp add: power_int_minus field_simps)
  define k where "k = roundHalfEven (r * 2 ^ 53)"
  from assms(1) have "r = roundDouble r"
    by (simp add: isDouble_def)
  also note e
  finally have k: "r = of_int k / 2 ^ 53"
    by (simp only: k_def)
  with assms(3) have "(of_int k :: real) < of_int (2 ^ 53)"
    by (simp add: field_simps)
  then have "k < 2 ^ 53"
    by (simp only: of_int_less_iff)
  then have "k \<le> 2 ^ 53 - 1"
    by simp
  then have "(of_int k :: real) \<le> of_int (2 ^ 53 - 1)"
    by (simp only: of_int_le_iff)
  then have "(of_int k :: real) \<le> 2 ^ 53 - 1"
    by simp
  with k show ?thesis
    by (simp add: field_simps)
qed

lemma roundDouble_fixed:
  assumes "2 powi e \<le> \<bar>v\<bar>" and "\<bar>v\<bar> < 2 powi (e + 1)" and "- 1022 \<le> e"
    and "v / 2 powi (e - 52) = of_int m"
  shows "roundDouble v = v"
proof -
  have "roundDouble v = of_int m * 2 powi (e - 52)"
    by (simp add: roundDouble_eval [OF assms(1-3)] assms(4) roundHalfEven_of_int)
  also have "\<dots> = v"
    by (simp flip: assms(4))
  finally show ?thesis .
qed

section \<open>The random source at some doubles\<close>

lemma getRandomNumberFromRange_draws:
  "getRandomNumberFromRange 0 0 19 = 0"
  "getRandomNumberFromRange (1 / 4) 0 19 = 5"
  "getRandomNumberFromRange (1 / 2) 0 19 = 10"
  "getRandomNumberFromRange (9 / 16) 0 19 = 11"
  "getRandomNumberFromRange (3 / 4) 0 19 = 15"
proof -
  have r: "roundDouble 5 = 5" "roundDouble 10 = 10" "roundDouble (45 / 4) = 45 / 4"
    "roundDouble 15 = 15"
    by (rule roundDouble_fixed [of 2 _ "5 * 2 ^ 50"] roundDouble_fixed [of 3 _ "10 * 2 ^ 49"]
          roundDouble_fixed [of 3 _ "45 * 2 ^ 47"] roundDouble_fixed [of 3 _ "15 * 2 ^ 49"];
        simp)+
  show "getRandomNumberFromRange 0 0 19 = 0"
    "getRandomNumberFromRange (1 / 4) 0 19 = 5"
    "getRandomNumberFromRange (1 / 2) 0 19 = 10"
    "getRandomNumberFromRange (9 / 16) 0 19 = 11"
    "getRandomNumberFromRange (3 / 4) 0 19 = 15"
    by (simp_all add: getRandomNumberFromRange_def roundDouble_zero r)
qed

lemma isDouble_draws:
  "isDouble 0" "isDouble (1 / 4)" "isDouble (1 / 2)" "isDouble (9 / 16)" "isDouble (3 / 4)"
proof -
  have "roundDouble (1 / 4) = 1 / 4" "roundDouble (1 / 2) = 1 / 2"
    "roundDouble (9 / 16) = 9 / 16" "roundDouble (3 / 4) = 3 / 4"
    by (rule roundDouble_fixed [of "- 2" _ "2 ^ 52"] roundDouble_fixed [of "- 1" _ "2 ^ 52"]
          roundDouble_fixed [of "- 1" _ "9 * 2 ^ 49"] roundDouble_fixed [of "- 1" _ "3 * 2 ^ 51"];
        simp)+
  then show "isDouble 0" "isDouble (1 / 4)" "isDouble (1 / 2)" "isDouble (9 / 16)"
    "isDouble (3 / 4)"
    by (simp_all add: isDouble_def roundDouble_zero)
qed

text \<open>
  Two draws at which the rounding of the product decides the result: the double nearest
  to 0.95, whose exact product with 20 is below 19, and the largest double below 1.
\<close>

lemma getRandomNumberFromRange_rounded_up:
  "getRandomNumberFromRange (4278419646001971 / 4503599627370496) 0 19 = 19"
  "getRandomNumberFromRange (9007199254740991 / 9007199254740992) 0 19 = 19"
proof -
  have a: "roundDouble (4278419646001971 / 4503599627370496 * 20) = 19"
    by (simp add: roundDouble_eval [of 4] roundHalfEven_def)
  have b: "roundDouble 19 = 19"
    by (rule roundDouble_fixed [of 4 _ "19 * 2 ^ 48"]; simp)
  have "getRandomNumberFromRange (4278419646001971 / 4503599627370496) 0 19
      = \<lfloor>roundDouble (roundDouble (4278419646001971 / 4503599627370496 * 20) + 0)\<rfloor>"
    by (simp add: getRandomNumberFromRange_def)
  also have "\<dots> = 19"
    by (simp only: a b add_0_right floor_numeral)
  finally show "getRandomNumberFromRange (4278419646001971 / 4503599627370496) 0 19 = 19" .
  have c: "roundDouble (9007199254740991 / 9007199254740992 * 20)
      = 5629499534213119 / 281474976710656"
    by (simp add: roundDouble_eval [of 4] roundHalfEven_def)
  have d: "roundDouble (5629499534213119 / 281474976710656)
      = 5629499534213119 / 281474976710656"
    by (rule roundDouble_fixed [of 4 _ "5629499534213119"]; simp)
  have "getRandomNumberFromRange (9007199254740991 / 9007199254740992) 0 19
      = \<lfloor>roundDouble (roundDouble (9007199254740991 / 9007199254740992 * 20) + 0)\<rfloor>"
    by (simp add: getRandomNumberFromRange_def)
  also have "\<dots> = \<lfloor>5629499534213119 / 281474976710656 :: real\<rfloor>"
    by (simp only: c d add_0_right)
  also have "\<dots> = 19"
    by simp
  finally show "getRandomNumberFromRange (9007199254740991 / 9007199254740992) 0 19 = 19" .
qed

lemma isDouble_rounded_up:
  "isDouble (4278419646001971 / 4503599627370496)"
  "isDouble (9007199254740991 / 9007199254740992)"
proof -
  have "roundDouble (4278419646001971 / 4503599627370496)
      = 4278419646001971 / 4503599627370496"
    "roundDouble (9007199254740991 / 9007199254740992) = 9007199254740991 / 9007199254740992"
    by (rule roundDouble_fixed [of "- 1" _ "2 * 4278419646001971"]
          roundDouble_fixed [of "- 1" _ "9007199254740991"]; simp)+
  then show "isDouble (4278419646001971 / 4503599627370496)"
    "isDouble (9007199254740991 / 9007199254740992)"
    by (simp_all add: isDouble_def)
qed

text \<open>
  With exact arithmetic in place of the rounded product the first of these draws would
  give 18.
\<close>

lemma exact_product_differs:
  "\<lfloor>(4278419646001971 / 4503599627370496 :: real) * 20 + 0\<rfloor> = 18"
  by simp

lemma getRandomCoordinate_draws:
  "getRandomCoordinate (0, 0) = \<lparr>x = 0, y = 0\<rparr>"
  "getRandomCoordinate (1 / 2, 1 / 2) = \<lparr>x = 10, y = 10\<rparr>"
  "getRandomCoordinate (9 / 16, 1 / 2) = \<lparr>x = 11, y = 10\<rparr>"
  "getRandomCoordinate (1 / 4, 3 / 4) = \<lparr>x = 5, y = 15\<rparr>"
  by (simp_all add: getRandomCoordinate_def gridRows_def gridColumns_def
        getRandomNumberFromRange_draws)

lemma validRandom_draws:
  "validRandom (0, 0)" "validRandom (1 / 2, 1 / 2)" "validRandom (9 / 16, 1 / 2)"
  "validRandom (1 / 4, 3 / 4)"
  by (simp_all add: validRandom_def isDouble_draws)

section \<open>Basic facts\<close>

lemma isSameCoordinate_eq: "isSameCoordinate a b \<longleftrightarrow> a = b"
  by (cases a, cases b) (simp add: isSameCoordinate_def)

lemma list_ex_same: "list_ex (\<lambda>c. isSameCoordinate c n) cs \<longleftrightarrow> n \<in> set cs"
  by (auto simp: list_ex_iff isSameCoordinate_eq)

lemma slice_butlast: "slice cs 0 (int (length cs) - 1) = butlast cs"
proof (cases cs)
  case Nil
  then show ?thesis by (simp add: slice_def)
next
  case (Cons c cs')
  have "nat (int (length cs) - 1) = length cs - 1"
    by arith
  with Cons show ?thesis
    by (simp add: slice_def Let_def butlast_conv_take)
qed

lemma getCenterCoordinate_eq: "getCenterCoordinate = \<lparr>x = 10, y = 10\<rparr>"
  by (simp add: getCenterCoordinate_def toInt32_def gridRows_def gridColumns_def)

lemma Coordinate_eta: "\<lparr>x = x c, y = y c\<rparr> = c"
  by (cases c) simp

text \<open>
  The four branches of \<open>gameTick\<close> on a snake with a head, with the scan of the snake
  read as membership and the slice as \<open>butlast\<close>.
\<close>

lemma gameTick_Cons:
  assumes "snake s = h # t"
  shows "gameTick rnd s =
     (let n = getNextCoordinate h (currentDirection s)
      in if isOutOfBounds n \<or> n \<in> set (snake s)
           then Inr (s\<lparr>lastDirection := currentDirection s, gameState := Loss\<rparr>)
         else if food s = n
           then Inr (s\<lparr>lastDirection := currentDirection s,
                       food := getRandomCoordinate rnd, snake := food s # snake s\<rparr>)
         else Inr (s\<lparr>lastDirection := currentDirection s, snake := n # butlast (snake s)\<rparr>))"
proof -
  have "list_ex (\<lambda>c. isSameCoordinate c n) (h # t) \<longleftrightarrow> n \<in> set (h # t)" for n
    by (rule list_ex_same)
  moreover have "slice (h # t) 0 (int (length (h # t)) - 1) = butlast (h # t)"
    by (rule slice_butlast)
  ultimately show ?thesis
    using assms
    by (simp add: gameTick_def Let_def isSameCoordinate_eq Coordinate_eta
             del: list_ex_Cons_iff set_simps butlast.simps list.size)
qed

section \<open>The four outcomes of a tick\<close>

text \<open>
  Claim C4. In every Playing state whose next coordinate (one step from the head in
  \<open>currentDirection\<close>) is out of bounds, \<open>gameTick\<close> returns normally, sets the status
  to Loss and records \<open>currentDirection\<close> as the new \<open>lastDirection\<close>; the snake, the food
  and \<open>currentDirection\<close> are unchanged. In particular, from any snake with head \<open>{0,5}\<close>
  moving West the next coordinate is \<open>{-1,5}\<close>, the status becomes Loss and the snake is
  unchanged.
\<close>

theorem gameTick_out_of_bounds:
  assumes "gameState s = Playing" and "snake s = h # t"
    and "isOutOfBounds (getNextCoordinate h (currentDirection s))"
  shows "(\<exists>s'. gameTick rnd s = Inr s' \<and> gameState s' = Loss
            \<and> lastDirection s' = currentDirection s \<and> snake s' = snake s
            \<and> food s' = food s \<and> currentDirection s' = currentDirection s)
       \<and> (\<exists>s'. gameTick rnd
                  \<lparr>gameState = Playing, currentDirection = West, lastDirection = d,
                   snake = \<lparr>x = 0, y = 5\<rparr> # cs, food = f\<rparr> = Inr s'
            \<and> getNextCoordinate \<lparr>x = 0, y = 5\<rparr> West = \<lparr>x = -1, y = 5\<rparr>
            \<and> gameState s' = Loss \<and> snake s' = \<lparr>x = 0, y = 5\<rparr> # cs)"
proof
  show "\<exists>s'. gameTick rnd s = Inr s' \<and> gameState s' = Loss
            \<and> lastDirection s' = currentDirection s \<and> snake s' = snake s
            \<and> food s' = food s \<and> currentDirection s' = currentDirection s"
    using assms by (simp add: gameTick_Cons)
next
  let ?e = "\<lparr>gameState = Playing, currentDirection = West, lastDirection = d,
             snake = \<lparr>x = 0, y = 5\<rparr> # cs, food = f\<rparr>"
  have "snake ?e = \<lparr>x = 0, y = 5\<rparr> # cs"
    by simp
  then show "\<exists>s'. gameTick rnd ?e = Inr s'
            \<and> getNextCoordinate \<lparr>x = 0, y = 5\<rparr> West = \<lparr>x = -1, y = 5\<rparr>
            \<and> gameState s' = Loss \<and> snake s' = \<lparr>x = 0, y = 5\<rparr> # cs"
    by (simp add: gameTick_Cons isOutOfBounds_def gridRows_def gridColumns_def)
qed

theorem gameTick_out_of_bounds_witness:
  "gameTick (0, 0)
     \<lparr>gameState = Playing, currentDirection = South, lastDirection = East,
      snake = [\<lparr>x = 7, y = 19\<rparr>, \<lparr>x = 6, y = 19\<rparr>], food = \<lparr>x = 2, y = 3\<rparr>\<rparr>
   = Inr \<lparr>gameState = Loss, currentDirection = South, lastDirection = South,
          snake = [\<lparr>x = 7, y = 19\<rparr>, \<lparr>x = 6, y = 19\<rparr>], food = \<lparr>x = 2, y = 3\<rparr>\<rparr>"
proof -
  let ?s = "\<lparr>gameState = Playing, currentDirection = South, lastDirection = East,
      snake = [\<lparr>x = 7, y = 19\<rparr>, \<lparr>x = 6, y = 19\<rparr>], food = \<lparr>x = 2, y = 3\<rparr>\<rparr>"
  have 1: "gameState ?s = Playing" by simp
  have 2: "snake ?s = \<lparr>x = 7, y = 19\<rparr> # [\<lparr>x = 6, y = 19\<rparr>]" by simp
  have 3: "isOutOfBounds (getNextCoordinate \<lparr>x = 7, y = 19\<rparr> (currentDirection ?s))"
    by (simp add: isOutOfBounds_def gridRows_def gridColumns_def)
  from gameTick_out_of_bounds [OF 1 2 3, of "(0, 0)", THEN conjunct1]
  obtain s' where "gameTick (0, 0) ?s = Inr s'" and "gameState s' = Loss"
    and "lastDirection s' = South" and "snake s' = snake ?s" and "food s' = food ?s"
    and "currentDirection s' = South"
    by auto
  then show ?thesis
    by (cases s') simp
qed

text \<open>
  Claim C3. In every Playing state whose next coordinate is in bounds but is one of the
  segments of the snake before the move (the head, a body segment, or the tail segment
  that a normal move would drop), \<open>gameTick\<close> sets the status to Loss. In particular,
  from the snake \<open>[{5,5},{4,5},{3,5}]\<close> moving West, which produces \<open>{4,5}\<close>, the status
  becomes Loss.
\<close>

theorem gameTick_self_collision:
  assumes "gameState s = Playing" and "snake s = h # t"
    and "\<not> isOutOfBounds (getNextCoordinate h (currentDirection s))"
    and "getNextCoordinate h (currentDirection s) \<in> set (snake s)"
  shows "(\<exists>s'. gameTick rnd s = Inr s' \<and> gameState s' = Loss)
       \<and> (\<exists>s'. gameTick rnd
                  \<lparr>gameState = Playing, currentDirection = West, lastDirection = d,
                   snake = [\<lparr>x = 5, y = 5\<rparr>, \<lparr>x = 4, y = 5\<rparr>, \<lparr>x = 3, y = 5\<rparr>], food = f\<rparr>
                = Inr s' \<and> gameState s' = Loss)"
proof
  show "\<exists>s'. gameTick rnd s = Inr s' \<and> gameState s' = Loss"
    using assms by (simp add: gameTick_Cons)
next
  let ?e = "\<lparr>gameState = Playing, currentDirection = West, lastDirection = d,
             snake = [\<lparr>x = 5, y = 5\<rparr>, \<lparr>x = 4, y = 5\<rparr>, \<lparr>x = 3, y = 5\<rparr>], food = f\<rparr>"
  have "snake ?e = \<lparr>x = 5, y = 5\<rparr> # [\<lparr>x = 4, y = 5\<rparr>, \<lparr>x = 3, y = 5\<rparr>]"
    by simp
  then show "\<exists>s'. gameTick rnd ?e = Inr s' \<and> gameState s' = Loss"
    by (simp add: gameTick_Cons isOutOfBounds_def gridRows_def gridColumns_def)
qed

theorem gameTick_self_collision_witness:
  "\<exists>s'. gameTick (0, 0)
          \<lparr>gameState = Playing, currentDirection = South, lastDirection = West,
           snake = [\<lparr>x = 4, y = 4\<rparr>, \<lparr>x = 5, y = 4\<rparr>, \<lparr>x = 5, y = 5\<rparr>, \<lparr>x = 4, y = 5\<rparr>],
           food = \<lparr>x = 0, y = 0\<rparr>\<rparr> = Inr s' \<and> gameState s' = Loss"
proof -
  let ?s = "\<lparr>gameState = Playing, currentDirection = South, lastDirection = West,
           snake = [\<lparr>x = 4, y = 4\<rparr>, \<lparr>x = 5, y = 4\<rparr>, \<lparr>x = 5, y = 5\<rparr>, \<lparr>x = 4, y = 5\<rparr>],
           food = \<lparr>x = 0, y = 0\<rparr>\<rparr>"
  have 1: "gameState ?s = Playing" by simp
  have 2: "snake ?s = \<lparr>x = 4, y = 4\<rparr> # [\<lparr>x = 5, y = 4\<rparr>, \<lparr>x = 5, y = 5\<rparr>, \<lparr>x = 4, y = 5\<rparr>]"
    by simp
  have 3: "\<not> isOutOfBounds (getNextCoordinate \<lparr>x = 4, y = 4\<rparr> (currentDirection ?s))"
    by (simp add: isOutOfBounds_def gridRows_def gridColumns_def)
  have 4: "getNextCoordinate \<lparr>x = 4, y = 4\<rparr> (currentDirection ?s) \<in> set (snake ?s)"
    by simp
  from gameTick_self_collision [OF 1 2 3 4, of "(0, 0)", THEN conjunct1] show ?thesis
    by simp
qed

text \<open>
  Claim C2. In every Playing state whose next coordinate is in bounds, on no segment of
  the snake before the move, and equal to the food coordinate, \<open>gameTick\<close> prepends the
  food's own coordinate (which is the next coordinate) as the new head and removes no
  segment, so the snake is one longer; the food becomes the coordinate drawn from the
  random source, and the status stays Playing.
\<close>

theorem gameTick_food_capture:
  assumes "gameState s = Playing" and "snake s = h # t"
    and "\<not> isOutOfBounds (getNextCoordinate h (currentDirection s))"
    and "getNextCoordinate h (currentDirection s) \<notin> set (snake s)"
    and "food s = getNextCoordinate h (currentDirection s)"
  shows "\<exists>s'. gameTick rnd s = Inr s'
           \<and> s' = s\<lparr>lastDirection := currentDirection s,
                     food := getRandomCoordinate rnd, snake := food s # snake s\<rparr>
           \<and> hd (snake s') = food s
           \<and> hd (snake s') = getNextCoordinate h (currentDirection s)
           \<and> tl (snake s') = snake s
           \<and> length (snake s') = length (snake s) + 1
           \<and> food s' = getRandomCoordinate rnd
           \<and> gameState s' = Playing"
  using assms by (simp add: gameTick_Cons)

theorem gameTick_food_capture_witness:
  "gameTick (1 / 4, 3 / 4)
     \<lparr>gameState = Playing, currentDirection = East, lastDirection = North,
      snake = [\<lparr>x = 10, y = 10\<rparr>, \<lparr>x = 10, y = 11\<rparr>], food = \<lparr>x = 11, y = 10\<rparr>\<rparr>
   = Inr \<lparr>gameState = Playing, currentDirection = East, lastDirection = East,
          snake = [\<lparr>x = 11, y = 10\<rparr>, \<lparr>x = 10, y = 10\<rparr>, \<lparr>x = 10, y = 11\<rparr>],
          food = \<lparr>x = 5, y = 15\<rparr>\<rparr>"
  using gameTick_food_capture [of
      "\<lparr>gameState = Playing, currentDirection = East, lastDirection = North,
        snake = [\<lparr>x = 10, y = 10\<rparr>, \<lparr>x = 10, y = 11\<rparr>], food = \<lparr>x = 11, y = 10\<rparr>\<rparr>"
      "\<lparr>x = 10, y = 10\<rparr>" "[\<lparr>x = 10, y = 11\<rparr>]" "(1 / 4, 3 / 4)"]
  by (simp add: isOutOfBounds_def gridRows_def gridColumns_def getRandomCoordinate_draws)

text \<open>
  Claim C5. In every Playing state whose next coordinate is in bounds, on no segment of
  the snake before the move, and different from the food, \<open>gameTick\<close> replaces the snake
  by the next coordinate followed by the snake without its last segment, so the length
  is unchanged; the food and the Playing status are unchanged. In particular, from the
  snake \<open>[{10,10}]\<close> moving East with food \<open>{15,15}\<close> the new snake is \<open>[{11,10}]\<close> and the
  status stays Playing.
\<close>

theorem gameTick_normal_move:
  assumes "gameState s = Playing" and "snake s = h # t"
    and "\<not> isOutOfBounds (getNextCoordinate h (currentDirection s))"
    and "getNextCoordinate h (currentDirection s) \<notin> set (snake s)"
    and "food s \<noteq> getNextCoordinate h (currentDirection s)"
  shows "(\<exists>s'. gameTick rnd s = Inr s'
            \<and> snake s' = getNextCoordinate h (currentDirection s) # butlast (snake s)
            \<and> length (snake s') = length (snake s)
            \<and> food s' = food s \<and> gameState s' = Playing)
       \<and> (\<exists>s'. gameTick rnd
                  \<lparr>gameState = Playing, currentDirection = East, lastDirection = d,
                   snake = [\<lparr>x = 10, y = 10\<rparr>], food = \<lparr>x = 15, y = 15\<rparr>\<rparr> = Inr s'
            \<and> snake s' = [\<lparr>x = 11, y = 10\<rparr>] \<and> gameState s' = Playing)"
proof
  show "\<exists>s'. gameTick rnd s = Inr s'
            \<and> snake s' = getNextCoordinate h (currentDirection s) # butlast (snake s)
            \<and> length (snake s') = length (snake s)
            \<and> food s' = food s \<and> gameState s' = Playing"
    using assms by (simp add: gameTick_Cons)
next
  let ?e = "\<lparr>gameState = Playing, currentDirection = East, lastDirection = d,
             snake = [\<lparr>x = 10, y = 10\<rparr>], food = \<lparr>x = 15, y = 15\<rparr>\<rparr>"
  have "snake ?e = \<lparr>x = 10, y = 10\<rparr> # []"
    by simp
  then show "\<exists>s'. gameTick rnd ?e = Inr s'
            \<and> snake s' = [\<lparr>x = 11, y = 10\<rparr>] \<and> gameState s' = Playing"
    by (simp add: gameTick_Cons isOutOfBounds_def gridRows_def gridColumns_def)
qed

theorem gameTick_normal_move_witness:
  "\<exists>s'. gameTick (0, 0)
     \<lparr>gameState = Playing, currentDirection = North, lastDirection = East,
      snake = [\<lparr>x = 3, y = 8\<rparr>, \<lparr>x = 2, y = 8\<rparr>, \<lparr>x = 1, y = 8\<rparr>],
      food = \<lparr>x = 15, y = 15\<rparr>\<rparr> = Inr s'
     \<and> snake s' = [\<lparr>x = 3, y = 7\<rparr>, \<lparr>x = 3, y = 8\<rparr>, \<lparr>x = 2, y = 8\<rparr>]
     \<and> food s' = \<lparr>x = 15, y = 15\<rparr> \<and> gameState s' = Playing"
proof -
  let ?s = "\<lparr>gameState = Playing, currentDirection = North, lastDirection = East,
      snake = [\<lparr>x = 3, y = 8\<rparr>, \<lparr>x = 2, y = 8\<rparr>, \<lparr>x = 1, y = 8\<rparr>],
      food = \<lparr>x = 15, y = 15\<rparr>\<rparr>"
  have 1: "gameState ?s = Playing" by simp
  have 2: "snake ?s = \<lparr>x = 3, y = 8\<rparr> # [\<lparr>x = 2, y = 8\<rparr>, \<lparr>x = 1, y = 8\<rparr>]" by simp
  have 3: "\<not> isOutOfBounds (getNextCoordinate \<lparr>x = 3, y = 8\<rparr> (currentDirection ?s))"
    by (simp add: isOutOfBounds_def gridRows_def gridColumns_def)
  have 4: "getNextCoordinate \<lparr>x = 3, y = 8\<rparr> (currentDirection ?s) \<notin> set (snake ?s)"
    by simp
  have 5: "food ?s \<noteq> getNextCoordinate \<lparr>x = 3, y = 8\<rparr> (currentDirection ?s)"
    by simp
  from gameTick_normal_move [OF 1 2 3 4 5, of "(0, 0)", THEN conjunct1] show ?thesis
    by auto
qed

section \<open>The reversal guard of the input handler\<close>

text \<open>
  Claim C8. In every state, an arrow key whose direction is the exact reverse of
  \<open>lastDirection\<close> (ArrowUp is North, the reverse of South; ArrowDown is South, the
  reverse of North; ArrowLeft is West, the reverse of East; ArrowRight is East, the
  reverse of West) changes no component of the state, and an arrow key whose direction
  is not the reverse of \<open>lastDirection\<close> sets \<open>currentDirection\<close> to that direction and
  changes nothing else. In particular, with \<open>lastDirection = East\<close> an ArrowLeft event
  leaves \<open>currentDirection\<close> unchanged.
\<close>

theorem onKeyDown_reversal_guard:
  "onKeyDown ''ArrowUp'' rnd s =
     (if lastDirection s = South then s else s\<lparr>currentDirection := North\<rparr>)
   \<and> onKeyDown ''ArrowDown'' rnd s =
     (if lastDirection s = North then s else s\<lparr>currentDirection := South\<rparr>)
   \<and> onKeyDown ''ArrowLeft'' rnd s =
     (if lastDirection s = East then s else s\<lparr>currentDirection := West\<rparr>)
   \<and> onKeyDown ''ArrowRight'' rnd s =
     (if lastDirection s = West then s else s\<lparr>currentDirection := East\<rparr>)
   \<and> (lastDirection s = East \<longrightarrow>
        currentDirection (onKeyDown ''ArrowLeft'' rnd s) = currentDirection s)"
  by (simp add: onKeyDown_def)

theorem onKeyDown_reversal_guard_witness:
  "onKeyDown ''ArrowLeft'' (0, 0)
     \<lparr>gameState = Playing, currentDirection = North, lastDirection = East,
      snake = [\<lparr>x = 10, y = 10\<rparr>], food = \<lparr>x = 1, y = 1\<rparr>\<rparr>
   = \<lparr>gameState = Playing, currentDirection = North, lastDirection = East,
      snake = [\<lparr>x = 10, y = 10\<rparr>], food = \<lparr>x = 1, y = 1\<rparr>\<rparr>
   \<and> onKeyDown ''ArrowUp'' (0, 0)
     \<lparr>gameState = Playing, currentDirection = East, lastDirection = East,
      snake = [\<lparr>x = 10, y = 10\<rparr>], food = \<lparr>x = 1, y = 1\<rparr>\<rparr>
   = \<lparr>gameState = Playing, currentDirection = North, lastDirection = East,
      snake = [\<lparr>x = 10, y = 10\<rparr>], food = \<lparr>x = 1, y = 1\<rparr>\<rparr>"
  using onKeyDown_reversal_guard [of "(0, 0)"
      "\<lparr>gameState = Playing, currentDirection = North, lastDirection = East,
        snake = [\<lparr>x = 10, y = 10\<rparr>], food = \<lparr>x = 1, y = 1\<rparr>\<rparr>"]
    onKeyDown_reversal_guard [of "(0, 0)"
      "\<lparr>gameState = Playing, currentDirection = East, lastDirection = East,
        snake = [\<lparr>x = 10, y = 10\<rparr>], food = \<lparr>x = 1, y = 1\<rparr>\<rparr>"]
  by simp

section \<open>The speed curve\<close>

lemma getGameSpeed_antimono: "a \<le> b \<Longrightarrow> getGameSpeed b \<le> getGameSpeed a"
  by (simp add: getGameSpeed_def gridRows_def gridColumns_def Let_def)

text \<open>
  Claim C7, as stated, asks for a strictly smaller interval at every longer snake. The
  curve is a step function: the lengths 1 and 2 both lie in the first band and get the
  same interval.
\<close>

theorem getGameSpeed_not_strict:
  "(1::nat) \<le> 1 \<and> (1::nat) < 2 \<and> (2::nat) \<le> 400
   \<and> getGameSpeed (real (1::nat)) = 200 \<and> getGameSpeed (real (2::nat)) = 200
   \<and> \<not> getGameSpeed (real (2::nat)) < getGameSpeed (real (1::nat))"
  by (simp add: getGameSpeed_def gridRows_def gridColumns_def)

lemma getGameSpeed_bands:
  "getGameSpeed (real s) =
     (if s < 20 then 200 else if s < 60 then 180 else if s < 120 then 155
      else if s < 200 then 125 else if s < 300 then 90 else 50)"
  by (simp add: getGameSpeed_def gridRows_def gridColumns_def Let_def)

lemma getGameSpeed_six_values: "(\<lambda>s. getGameSpeed (real s)) ` {1..400} = {200, 180, 155, 125, 90, 50}"
proof -
  note b = getGameSpeed_bands
  show ?thesis
  proof (intro equalityI subsetI)
    fix v assume "v \<in> (\<lambda>s. getGameSpeed (real s)) ` {1..400}"
    then show "v \<in> {200, 180, 155, 125, 90, 50}"
      by (auto simp: b)
  next
    fix v :: nat assume "v \<in> {200, 180, 155, 125, 90, 50}"
    then consider "v = 200" | "v = 180" | "v = 155" | "v = 125" | "v = 90" | "v = 50"
      by auto
    then show "v \<in> (\<lambda>s. getGameSpeed (real s)) ` {1..400}"
    proof cases
      case 1 then show ?thesis using b [of 1] by (intro image_eqI [where x = 1]) simp_all
    next
      case 2 then show ?thesis using b [of 20] by (intro image_eqI [where x = 20]) simp_all
    next
      case 3 then show ?thesis using b [of 60] by (intro image_eqI [where x = 60]) simp_all
    next
      case 4 then show ?thesis using b [of 120] by (intro image_eqI [where x = 120]) simp_all
    next
      case 5 then show ?thesis using b [of 200] by (intro image_eqI [where x = 200]) simp_all
    next
      case 6 then show ?thesis using b [of 300] by (intro image_eqI [where x = 300]) simp_all
    qed
  qed
qed

text \<open>
  Claim C7, amended. The interval is a step function of the snake length \<open>s\<close>: 200 for
  \<open>s < 20\<close>, 180 for \<open>20 \<le> s < 60\<close>, 155 for \<open>60 \<le> s < 120\<close>, 125 for \<open>120 \<le> s < 200\<close>,
  90 for \<open>200 \<le> s < 300\<close> and 50 from 300 on. So it never grows with the snake; for
  \<open>s1 < s2\<close> it is strictly smaller at \<open>s2\<close> exactly when one of the thresholds 20, 60,
  120, 200, 300 lies above \<open>s1\<close> and not above \<open>s2\<close>, and equal exactly when none does;
  over the lengths 1 to 400 it takes exactly the six values of the table; it is 200 at
  length 1 and 50 at length 300. \<open>getGameSpeed\<close> depends on its argument only and returns
  only the interval.
\<close>

theorem getGameSpeed_step_function:
  "getGameSpeed (real s) =
     (if s < 20 then 200 else if s < 60 then 180 else if s < 120 then 155
      else if s < 200 then 125 else if s < 300 then 90 else 50)
   \<and> (s1 \<le> s2 \<longrightarrow> getGameSpeed (real s2) \<le> getGameSpeed (real s1))
   \<and> (s1 < s2 \<longrightarrow>
        (getGameSpeed (real s2) < getGameSpeed (real s1)
           \<longleftrightarrow> (\<exists>t \<in> {20, 60, 120, 200, 300}. s1 < t \<and> t \<le> s2)))
   \<and> (s1 < s2 \<longrightarrow>
        (getGameSpeed (real s2) = getGameSpeed (real s1)
           \<longleftrightarrow> (\<forall>t \<in> {20, 60, 120, 200, 300}. t \<le> s1 \<or> s2 < t)))
   \<and> (\<lambda>s. getGameSpeed (real s)) ` {1..400} = {200, 180, 155, 125, 90, 50}
   \<and> getGameSpeed (real 1) = 200 \<and> getGameSpeed (real 300) = 50"
proof (intro conjI impI)
  show "(\<lambda>s. getGameSpeed (real s)) ` {1..400} = {200, 180, 155, 125, 90, 50}"
    by (rule getGameSpeed_six_values)
  show "getGameSpeed (real s) =
     (if s < 20 then 200 else if s < 60 then 180 else if s < 120 then 155
      else if s < 200 then 125 else if s < 300 then 90 else 50)"
    by (rule getGameSpeed_bands)
  show "getGameSpeed (real s2) \<le> getGameSpeed (real s1)" if "s1 \<le> s2"
    using that by (simp add: getGameSpeed_antimono)
  show "getGameSpeed (real s2) < getGameSpeed (real s1)
           \<longleftrightarrow> (\<exists>t \<in> {20, 60, 120, 200, 300}. s1 < t \<and> t \<le> s2)" if "s1 < s2"
    using that unfolding getGameSpeed_bands by (simp split: if_splits)
  show "getGameSpeed (real s2) = getGameSpeed (real s1)
           \<longleftrightarrow> (\<forall>t \<in> {20, 60, 120, 200, 300}. t \<le> s1 \<or> s2 < t)" if "s1 < s2"
    using that unfolding getGameSpeed_bands by (simp split: if_splits)
  show "getGameSpeed (real 1) = 200" "getGameSpeed (real 300) = 50"
    using getGameSpeed_bands [of 1] getGameSpeed_bands [of 300] by simp_all
qed

theorem getGameSpeed_step_function_witness:
  "(19::nat) < 20 \<and> getGameSpeed (real (20::nat)) < getGameSpeed (real (19::nat))
   \<and> getGameSpeed (real (19::nat)) = 200 \<and> getGameSpeed (real (20::nat)) = 180
   \<and> (20::nat) < 59 \<and> getGameSpeed (real (59::nat)) = getGameSpeed (real (20::nat))
   \<and> getGameSpeed (real (350::nat)) \<le> getGameSpeed (real (120::nat))
   \<and> getGameSpeed (real (120::nat)) = 125 \<and> getGameSpeed (real (350::nat)) = 50"
  using getGameSpeed_step_function [of 19 19 20] getGameSpeed_step_function [of 20 20 59]
    getGameSpeed_step_function [of 120 120 350] getGameSpeed_step_function [of 350 120 350]
  by simp

section \<open>Where the food is placed\<close>

lemma getRandomNumberFromRange_bounds:
  assumes "isDouble r" and "0 \<le> r" and "r < 1"
  shows "0 \<le> getRandomNumberFromRange r 0 19" and "getRandomNumberFromRange r 0 19 \<le> 19"
proof -
  let ?p = "roundDouble (r * 20)"
  from isDouble_below_1 [OF assms] have hi: "r * 20 \<le> 20 - 5 / 2 ^ 51"
    by simp
  from assms(2) have lo: "0 \<le> r * 20"
    by simp
  from lo have p1: "0 \<le> ?p"
    by (rule roundDouble_nonneg)
  from lo hi have p2: "?p \<le> 20 - 1 / 2 ^ 48"
    by (rule roundDouble_below_20)
  then have p3: "?p \<le> 20 - 5 / 2 ^ 51"
    by simp
  from p1 have "0 \<le> roundDouble ?p"
    by (rule roundDouble_nonneg)
  moreover from p1 p3 have "roundDouble ?p \<le> 20 - 1 / 2 ^ 48"
    by (rule roundDouble_below_20)
  ultimately have "0 \<le> roundDouble ?p" and "roundDouble ?p \<le> 20 - 1 / 2 ^ 48"
    by simp_all
  then have "0 \<le> roundDouble ?p" and "roundDouble ?p < 20"
    by simp_all
  then show "0 \<le> getRandomNumberFromRange r 0 19"
    and "getRandomNumberFromRange r 0 19 \<le> 19"
    by (simp_all add: getRandomNumberFromRange_def floor_le_iff)
qed

lemma getRandomCoordinate_range:
  assumes "validRandom rnd"
  shows "0 \<le> x (getRandomCoordinate rnd) \<and> x (getRandomCoordinate rnd) \<le> 19
       \<and> 0 \<le> y (getRandomCoordinate rnd) \<and> y (getRandomCoordinate rnd) \<le> 19"
  using assms
  by (simp add: validRandom_def getRandomCoordinate_def gridRows_def gridColumns_def
        getRandomNumberFromRange_bounds)

lemma getRandomCoordinate_in_bounds:
  "validRandom rnd \<Longrightarrow> \<not> isOutOfBounds (getRandomCoordinate rnd)"
  using getRandomCoordinate_range [of rnd]
  by (simp add: isOutOfBounds_def gridRows_def gridColumns_def)

lemma gameTick_food:
  assumes "gameTick rnd s = Inr s'"
  shows "food s' = food s \<or> food s' = getRandomCoordinate rnd"
proof (cases "snake s")
  case Nil
  with assms show ?thesis by (simp add: gameTick_def)
next
  case (Cons h t)
  with assms show ?thesis
    by (auto simp: gameTick_Cons Let_def split: if_splits)
qed

lemma onKeyDown_food:
  "food (onKeyDown code rnd s) = food s \<or> food (onKeyDown code rnd s) = getRandomCoordinate rnd"
  by (simp add: onKeyDown_def)

lemma reachable_food_in_bounds: "reachable s \<Longrightarrow> \<not> isOutOfBounds (food s)"
proof (induction rule: reachable.induct)
  case (reachable_init rnd)
  then show ?case
    by (simp add: initialState_def getRandomCoordinate_in_bounds)
next
  case (reachable_tick s rnd s')
  from gameTick_food [OF reachable_tick.hyps(4)] reachable_tick.IH reachable_tick.hyps(3)
  show ?case
    by (auto simp: getRandomCoordinate_in_bounds)
next
  case (reachable_key s rnd code)
  from onKeyDown_food [of code rnd s] reachable_key.IH reachable_key.hyps(2)
  show ?case
    by (auto simp: getRandomCoordinate_in_bounds)
qed

text \<open>
  Claim C10. For every outcome of the random source, a double in the half-open interval
  from 0 to 1, both components of the coordinate that \<open>getRandomCoordinate\<close> returns lie
  between 0 and 19, so \<open>isOutOfBounds\<close> is false on it. The product of the outcome with
  20 is rounded to a double and still stays below 20: an outcome below 1 is at most
  \<open>1 - 1 / 2 ^ 53\<close>, and what is at most \<open>20 - 5 / 2 ^ 51\<close> rounds to at most
  \<open>20 - 1 / 2 ^ 48\<close>. Hence the food lies on the 20 by 20 grid in the initial state, after
  every tick and key event that starts from a food on the grid, and so in every
  reachable state.
\<close>

theorem random_coordinate_on_grid:
  "(isDouble r \<and> 0 \<le> r \<and> r < 1 \<longrightarrow>
      0 \<le> getRandomNumberFromRange r 0 19 \<and> getRandomNumberFromRange r 0 19 \<le> 19)
   \<and> (validRandom rnd \<longrightarrow>
      0 \<le> x (getRandomCoordinate rnd) \<and> x (getRandomCoordinate rnd) \<le> 19
      \<and> 0 \<le> y (getRandomCoordinate rnd) \<and> y (getRandomCoordinate rnd) \<le> 19
      \<and> \<not> isOutOfBounds (getRandomCoordinate rnd))
   \<and> (validRandom rnd \<longrightarrow> \<not> isOutOfBounds (food (initialState rnd)))
   \<and> (validRandom rnd \<and> \<not> isOutOfBounds (food s) \<and> gameTick rnd s = Inr s' \<longrightarrow>
        \<not> isOutOfBounds (food s'))
   \<and> (validRandom rnd \<and> \<not> isOutOfBounds (food s) \<longrightarrow>
        \<not> isOutOfBounds (food (onKeyDown code rnd s)))
   \<and> (reachable s \<longrightarrow> \<not> isOutOfBounds (food s))"
  using getRandomNumberFromRange_bounds [of r]
    getRandomCoordinate_range [of rnd] getRandomCoordinate_in_bounds [of rnd]
    gameTick_food [of rnd s s'] onKeyDown_food [of code rnd s] reachable_food_in_bounds [of s]
  by (auto simp: initialState_def)

theorem random_coordinate_on_grid_witness:
  "validRandom (4278419646001971 / 4503599627370496, 9007199254740991 / 9007199254740992)
   \<and> getRandomNumberFromRange (4278419646001971 / 4503599627370496) 0 19 = 19
   \<and> getRandomCoordinate
        (4278419646001971 / 4503599627370496, 9007199254740991 / 9007199254740992)
       = \<lparr>x = 19, y = 19\<rparr>
   \<and> \<not> isOutOfBounds (getRandomCoordinate
        (4278419646001971 / 4503599627370496, 9007199254740991 / 9007199254740992))
   \<and> reachable (initialState
        (4278419646001971 / 4503599627370496, 9007199254740991 / 9007199254740992))
   \<and> \<not> isOutOfBounds (food (initialState
        (4278419646001971 / 4503599627370496, 9007199254740991 / 9007199254740992)))"
proof -
  let ?a = "4278419646001971 / 4503599627370496 :: real"
  let ?r = "(?a, 9007199254740991 / 9007199254740992 :: real)"
  have d: "isDouble ?a \<and> 0 \<le> ?a \<and> ?a < 1"
    by (simp add: isDouble_rounded_up)
  have v: "validRandom ?r"
    by (simp add: validRandom_def isDouble_rounded_up)
  have e: "getRandomCoordinate ?r = \<lparr>x = 19, y = 19\<rparr>"
    by (simp add: getRandomCoordinate_def gridRows_def gridColumns_def
          getRandomNumberFromRange_rounded_up)
  have r: "reachable (initialState ?r)"
    using v by (rule reachable_init)
  from random_coordinate_on_grid [of ?a ?r "initialState ?r"] d v e r show ?thesis
    by (simp add: getRandomNumberFromRange_rounded_up)
qed

text \<open>
  Claim C1, as stated, asks that a placed food coordinate is never on the snake. Nothing
  in the code compares the drawn coordinate with the snake. With both random outcomes
  \<open>1/2\<close> the initial food is the centre cell \<open>{10,10}\<close>, the snake's only segment; and a
  capture from the initial state with food \<open>{11,10}\<close>, again with both outcomes \<open>1/2\<close>,
  places the new food on \<open>{10,10}\<close>, a segment of the snake before and after the move.
\<close>

theorem food_placed_on_snake:
  "validRandom (1 / 2, 1 / 2)
   \<and> food (initialState (1 / 2, 1 / 2)) \<in> set (snake (initialState (1 / 2, 1 / 2)))
   \<and> validRandom (9 / 16, 1 / 2)
   \<and> gameTick (1 / 2, 1 / 2) (initialState (9 / 16, 1 / 2))
       = Inr \<lparr>gameState = Playing, currentDirection = East, lastDirection = East,
              snake = [\<lparr>x = 11, y = 10\<rparr>, \<lparr>x = 10, y = 10\<rparr>], food = \<lparr>x = 10, y = 10\<rparr>\<rparr>"
proof -
  have "snake (initialState (9 / 16, 1 / 2)) = \<lparr>x = 10, y = 10\<rparr> # []"
    by (simp add: initialState_def getCenterCoordinate_eq)
  then have "gameTick (1 / 2, 1 / 2) (initialState (9 / 16, 1 / 2))
       = Inr \<lparr>gameState = Playing, currentDirection = East, lastDirection = East,
              snake = [\<lparr>x = 11, y = 10\<rparr>, \<lparr>x = 10, y = 10\<rparr>], food = \<lparr>x = 10, y = 10\<rparr>\<rparr>"
    by (simp add: gameTick_Cons isOutOfBounds_def gridRows_def gridColumns_def
          initialState_def getCenterCoordinate_eq getRandomCoordinate_draws)
  then show ?thesis
    by (simp add: validRandom_draws initialState_def getCenterCoordinate_eq
          getRandomCoordinate_draws)
qed

text \<open>
  Claim C1, amended. Whenever a food coordinate is placed (in the initial state and on
  every food capture of \<open>gameTick\<close>), it is the coordinate drawn from the random source,
  unfiltered. So it differs from every segment of the snake at that moment exactly when
  the draw does: in the initial state when the draw is not the centre \<open>{10,10}\<close>, on a
  capture when the draw is neither the captured cell (the new head) nor a segment of the
  snake before the move.
\<close>

theorem food_is_the_random_draw:
  "food (initialState rnd) = getRandomCoordinate rnd
   \<and> (food (initialState rnd) \<notin> set (snake (initialState rnd))
        \<longleftrightarrow> getRandomCoordinate rnd \<noteq> \<lparr>x = 10, y = 10\<rparr>)
   \<and> (snake s = h # t \<and> \<not> isOutOfBounds (getNextCoordinate h (currentDirection s))
        \<and> getNextCoordinate h (currentDirection s) \<notin> set (snake s)
        \<and> food s = getNextCoordinate h (currentDirection s) \<longrightarrow>
        (\<exists>s'. gameTick rnd s = Inr s' \<and> food s' = getRandomCoordinate rnd
           \<and> snake s' = food s # snake s
           \<and> (food s' \<notin> set (snake s')
                \<longleftrightarrow> getRandomCoordinate rnd \<noteq> food s
                    \<and> getRandomCoordinate rnd \<notin> set (snake s))))"
proof (intro conjI impI)
  show "food (initialState rnd) = getRandomCoordinate rnd"
    by (simp add: initialState_def)
  show "food (initialState rnd) \<notin> set (snake (initialState rnd))
        \<longleftrightarrow> getRandomCoordinate rnd \<noteq> \<lparr>x = 10, y = 10\<rparr>"
    by (simp add: initialState_def getCenterCoordinate_eq)
next
  assume "snake s = h # t \<and> \<not> isOutOfBounds (getNextCoordinate h (currentDirection s))
        \<and> getNextCoordinate h (currentDirection s) \<notin> set (snake s)
        \<and> food s = getNextCoordinate h (currentDirection s)"
  then show "\<exists>s'. gameTick rnd s = Inr s' \<and> food s' = getRandomCoordinate rnd
           \<and> snake s' = food s # snake s
           \<and> (food s' \<notin> set (snake s')
                \<longleftrightarrow> getRandomCoordinate rnd \<noteq> food s
                    \<and> getRandomCoordinate rnd \<notin> set (snake s))"
    by (elim conjE) (simp add: gameTick_Cons)
qed

theorem food_is_the_random_draw_witness:
  "\<exists>s'. gameTick (1 / 4, 3 / 4) (initialState (9 / 16, 1 / 2)) = Inr s'
      \<and> food s' = \<lparr>x = 5, y = 15\<rparr>
      \<and> snake s' = [\<lparr>x = 11, y = 10\<rparr>, \<lparr>x = 10, y = 10\<rparr>]
      \<and> food s' \<notin> set (snake s')"
proof -
  let ?s = "initialState (9 / 16, 1 / 2)"
  have 1: "snake ?s = \<lparr>x = 10, y = 10\<rparr> # []"
    by (simp add: initialState_def getCenterCoordinate_eq)
  have 2: "currentDirection ?s = East" and 3: "food ?s = \<lparr>x = 11, y = 10\<rparr>"
    by (simp_all add: initialState_def getRandomCoordinate_draws)
  have 4: "getRandomCoordinate (1 / 4, 3 / 4) = \<lparr>x = 5, y = 15\<rparr>"
    by (simp add: getRandomCoordinate_draws)
  have 5: "\<not> isOutOfBounds \<lparr>x = 11, y = 10\<rparr>"
    by (simp add: isOutOfBounds_def gridRows_def gridColumns_def)
  from food_is_the_random_draw [of "(1 / 4, 3 / 4)" ?s "\<lparr>x = 10, y = 10\<rparr>" "[]"] 1 2 3 4 5
  show ?thesis
    by auto
qed

section \<open>The snake never overlaps itself\<close>

lemma in_bounds_subset:
  "{c. \<not> isOutOfBounds c} \<subseteq> (\<lambda>(a, b). \<lparr>x = a, y = b\<rparr>) ` ({0..19} \<times> {0..19})"
proof
  fix c
  assume "c \<in> {c. \<not> isOutOfBounds c}"
  then have "(x c, y c) \<in> {0..19} \<times> {0..19}"
    by (simp add: isOutOfBounds_def gridRows_def gridColumns_def)
  moreover have "c = (\<lambda>(a, b). \<lparr>x = a, y = b\<rparr>) (x c, y c)"
    by simp
  ultimately show "c \<in> (\<lambda>(a, b). \<lparr>x = a, y = b\<rparr>) ` ({0..19} \<times> {0..19})"
    by (rule image_eqI [rotated])
qed

lemma in_bounds_length:
  assumes "distinct cs" and "list_all (\<lambda>c. \<not> isOutOfBounds c) cs"
  shows "length cs \<le> 400"
proof -
  let ?G = "(\<lambda>(a, b). \<lparr>x = a, y = b\<rparr>) ` ({0..19::int} \<times> {0..19::int})"
  have "set cs \<subseteq> ?G"
    using assms(2) in_bounds_subset by (auto simp: list_all_iff)
  moreover have "finite ?G"
    by simp
  ultimately have "card (set cs) \<le> card ?G"
    by (rule card_mono [rotated])
  also have "card ?G \<le> card ({0..19::int} \<times> {0..19::int})"
    by (rule card_image_le) simp
  also have "\<dots> = 400"
    by (simp add: card_cartesian_product)
  finally show ?thesis
    using assms(1) by (simp add: distinct_card)
qed

lemma snakeInv_initialState: "snakeInv (initialState rnd)"
  by (simp add: snakeInv_def initialState_def getCenterCoordinate_eq isOutOfBounds_def
        gridRows_def gridColumns_def)

lemma snakeInv_gameTick:
  assumes "snakeInv s" and "gameTick rnd s = Inr s'"
  shows "snakeInv s'"
proof -
  from assms(1) obtain h t where ht: "snake s = h # t"
    by (auto simp: snakeInv_def neq_Nil_conv)
  let ?n = "getNextCoordinate h (currentDirection s)"
  have bl: "distinct (butlast (snake s))" "set (butlast (snake s)) \<subseteq> set (snake s)"
    using assms(1) by (auto simp: snakeInv_def distinct_butlast dest: in_set_butlastD)
  show ?thesis
  proof (cases "isOutOfBounds ?n \<or> ?n \<in> set (snake s)")
    case True
    with assms ht show ?thesis
      by (auto simp: gameTick_Cons snakeInv_def)
  next
    case False
    show ?thesis
    proof (cases "food s = ?n")
      case True
      with False assms ht show ?thesis
        by (auto simp: gameTick_Cons snakeInv_def)
    next
      case nf: False
      with False assms(2) ht
      have s': "s' = s\<lparr>lastDirection := currentDirection s, snake := ?n # butlast (snake s)\<rparr>"
        by (simp add: gameTick_Cons)
      from False bl have "distinct (?n # butlast (snake s))"
        by auto
      moreover from False bl assms(1)
      have "list_all (\<lambda>c. \<not> isOutOfBounds c) (?n # butlast (snake s))"
        by (auto simp: snakeInv_def list_all_iff)
      ultimately show ?thesis
        by (simp add: s' snakeInv_def)
    qed
  qed
qed

lemma snakeInv_onKeyDown: "snakeInv s \<Longrightarrow> snakeInv (onKeyDown code rnd s)"
  by (simp add: onKeyDown_def snakeInv_def getCenterCoordinate_eq isOutOfBounds_def
        gridRows_def gridColumns_def)

lemma reachable_snakeInv: "reachable s \<Longrightarrow> snakeInv s"
proof (induction rule: reachable.induct)
  case (reachable_init rnd)
  show ?case by (rule snakeInv_initialState)
next
  case (reachable_tick s rnd s')
  then show ?case by (blast intro: snakeInv_gameTick)
next
  case (reachable_key s rnd code)
  then show ?case by (blast intro: snakeInv_onKeyDown)
qed

lemma snakeInv_bounds:
  assumes "snakeInv s"
  shows "distinct (snake s) \<and> 1 \<le> length (snake s) \<and> length (snake s) \<le> 400"
proof -
  from assms have "snake s \<noteq> []" and d: "distinct (snake s)"
    and b: "list_all (\<lambda>c. \<not> isOutOfBounds c) (snake s)"
    by (simp_all add: snakeInv_def)
  then have "1 \<le> length (snake s)"
    by (cases "snake s") simp_all
  with d in_bounds_length [OF d b] show ?thesis
    by simp
qed

lemma gameTick_total: "snakeInv s \<Longrightarrow> \<exists>s'. gameTick rnd s = Inr s'"
  by (cases "snake s") (simp_all add: snakeInv_def gameTick_Cons Let_def)

text \<open>
  Claim C6. In every reachable state whose status is Playing the segments of the snake
  are pairwise distinct and the length of the snake lies between 1 and 400. This holds
  in the initial state; from a reachable Playing state \<open>gameTick\<close> returns normally, and if
  the status is still Playing afterwards the same holds of the new snake; and it holds
  after every key event from a reachable state that leaves the status Playing (a restart
  included).
\<close>

theorem snake_distinct_and_bounded:
  "(distinct (snake (initialState rnd0)) \<and> 1 \<le> length (snake (initialState rnd0))
      \<and> length (snake (initialState rnd0)) \<le> 400)
   \<and> (reachable s \<and> gameState s = Playing \<longrightarrow>
        distinct (snake s) \<and> 1 \<le> length (snake s) \<and> length (snake s) \<le> 400)
   \<and> (reachable s \<and> gameState s = Playing \<longrightarrow>
        (\<exists>s'. gameTick rnd s = Inr s' \<and>
           (gameState s' = Playing \<longrightarrow>
              distinct (snake s') \<and> 1 \<le> length (snake s') \<and> length (snake s') \<le> 400)))
   \<and> (reachable s \<and> gameState (onKeyDown code rnd s) = Playing \<longrightarrow>
        distinct (snake (onKeyDown code rnd s)) \<and> 1 \<le> length (snake (onKeyDown code rnd s))
          \<and> length (snake (onKeyDown code rnd s)) \<le> 400)"
proof (intro conjI impI)
  show "distinct (snake (initialState rnd0))" "1 \<le> length (snake (initialState rnd0))"
    "length (snake (initialState rnd0)) \<le> 400"
    using snakeInv_bounds [OF snakeInv_initialState, of rnd0] by simp_all
next
  assume "reachable s \<and> gameState s = Playing"
  then have inv: "snakeInv s"
    by (simp add: reachable_snakeInv)
  from snakeInv_bounds [OF inv]
  show "distinct (snake s)" "1 \<le> length (snake s)" "length (snake s) \<le> 400"
    by simp_all
  from gameTick_total [OF inv] obtain s' where s': "gameTick rnd s = Inr s'"
    by blast
  from snakeInv_bounds [OF snakeInv_gameTick [OF inv s']] s'
  show "\<exists>s'. gameTick rnd s = Inr s' \<and>
           (gameState s' = Playing \<longrightarrow>
              distinct (snake s') \<and> 1 \<le> length (snake s') \<and> length (snake s') \<le> 400)"
    by simp
next
  assume "reachable s \<and> gameState (onKeyDown code rnd s) = Playing"
  then have "snakeInv (onKeyDown code rnd s)"
    by (simp add: reachable_snakeInv snakeInv_onKeyDown)
  from snakeInv_bounds [OF this]
  show "distinct (snake (onKeyDown code rnd s))" "1 \<le> length (snake (onKeyDown code rnd s))"
    "length (snake (onKeyDown code rnd s)) \<le> 400"
    by simp_all
qed

theorem snake_distinct_and_bounded_witness:
  "gameTick (1 / 4, 3 / 4) (initialState (9 / 16, 1 / 2))
     = Inr \<lparr>gameState = Playing, currentDirection = East, lastDirection = East,
            snake = [\<lparr>x = 11, y = 10\<rparr>, \<lparr>x = 10, y = 10\<rparr>], food = \<lparr>x = 5, y = 15\<rparr>\<rparr>
   \<and> reachable \<lparr>gameState = Playing, currentDirection = East, lastDirection = East,
            snake = [\<lparr>x = 11, y = 10\<rparr>, \<lparr>x = 10, y = 10\<rparr>], food = \<lparr>x = 5, y = 15\<rparr>\<rparr>
   \<and> distinct [\<lparr>x = 11, y = 10\<rparr>, \<lparr>x = 10, y = 10\<rparr>]
   \<and> (\<exists>s'. gameTick (0, 0)
          \<lparr>gameState = Playing, currentDirection = East, lastDirection = East,
           snake = [\<lparr>x = 11, y = 10\<rparr>, \<lparr>x = 10, y = 10\<rparr>], food = \<lparr>x = 5, y = 15\<rparr>\<rparr> = Inr s'
        \<and> gameState s' = Playing
        \<and> snake s' = [\<lparr>x = 12, y = 10\<rparr>, \<lparr>x = 11, y = 10\<rparr>]
        \<and> distinct (snake s') \<and> 1 \<le> length (snake s') \<and> length (snake s') \<le> 400)
   \<and> gameState (onKeyDown ''ArrowUp'' (0, 0)
          \<lparr>gameState = Playing, currentDirection = East, lastDirection = East,
           snake = [\<lparr>x = 11, y = 10\<rparr>, \<lparr>x = 10, y = 10\<rparr>], food = \<lparr>x = 5, y = 15\<rparr>\<rparr>) = Playing
   \<and> distinct (snake (onKeyDown ''ArrowUp'' (0, 0)
          \<lparr>gameState = Playing, currentDirection = East, lastDirection = East,
           snake = [\<lparr>x = 11, y = 10\<rparr>, \<lparr>x = 10, y = 10\<rparr>], food = \<lparr>x = 5, y = 15\<rparr>\<rparr>))"
proof -
  let ?s0 = "initialState (9 / 16, 1 / 2)"
  let ?s1 = "\<lparr>gameState = Playing, currentDirection = East, lastDirection = East,
            snake = [\<lparr>x = 11, y = 10\<rparr>, \<lparr>x = 10, y = 10\<rparr>], food = \<lparr>x = 5, y = 15\<rparr>\<rparr>"
  let ?s2 = "\<lparr>gameState = Playing, currentDirection = East, lastDirection = East,
            snake = [\<lparr>x = 12, y = 10\<rparr>, \<lparr>x = 11, y = 10\<rparr>], food = \<lparr>x = 5, y = 15\<rparr>\<rparr>"
  have r0: "reachable ?s0"
    by (rule reachable_init) (simp add: validRandom_draws)
  have p0: "gameState ?s0 = Playing" and d0: "tickDelay ?s0 \<noteq> None"
    by (simp_all add: initialState_def tickDelay_def)
  have "snake ?s0 = \<lparr>x = 10, y = 10\<rparr> # []"
    by (simp add: initialState_def getCenterCoordinate_eq)
  then have t0: "gameTick (1 / 4, 3 / 4) ?s0 = Inr ?s1"
    by (simp add: gameTick_Cons isOutOfBounds_def gridRows_def gridColumns_def
          initialState_def getCenterCoordinate_eq getRandomCoordinate_draws)
  have r1: "reachable ?s1"
    using r0 d0 _ t0 by (rule reachable_tick) (simp add: validRandom_draws)
  have "snake ?s1 = \<lparr>x = 11, y = 10\<rparr> # [\<lparr>x = 10, y = 10\<rparr>]"
    by simp
  then have t1: "gameTick (0, 0) ?s1 = Inr ?s2"
    by (simp add: gameTick_Cons isOutOfBounds_def gridRows_def gridColumns_def)
  have k1: "onKeyDown ''ArrowUp'' (0, 0) ?s1 = ?s1\<lparr>currentDirection := North\<rparr>"
    by (simp add: onKeyDown_def)
  from snake_distinct_and_bounded [of "(9 / 16, 1 / 2)" ?s0 "(1 / 4, 3 / 4)" "''ArrowUp''"]
    snake_distinct_and_bounded [of "(9 / 16, 1 / 2)" ?s1 "(0, 0)" "''ArrowUp''"]
    r0 p0 t0 r1 t1 k1
  show ?thesis
    by simp
qed

section \<open>The status Win\<close>

lemma gameTick_status:
  assumes "gameTick rnd s = Inr s'"
  shows "gameState s' = gameState s \<or> gameState s' = Loss"
proof (cases "snake s")
  case Nil
  with assms show ?thesis by (simp add: gameTick_def)
next
  case (Cons h t)
  with assms show ?thesis
    by (auto simp: gameTick_Cons Let_def split: if_splits)
qed

lemma onKeyDown_status:
  "gameState (onKeyDown code rnd s) = gameState s \<or> gameState (onKeyDown code rnd s) = Playing"
  by (simp add: onKeyDown_def)

lemma reachable_not_Win: "reachable s \<Longrightarrow> gameState s \<noteq> Win"
proof (induction rule: reachable.induct)
  case (reachable_init rnd)
  show ?case by (simp add: initialState_def)
next
  case (reachable_tick s rnd s')
  from gameTick_status [OF reachable_tick.hyps(4)] reachable_tick.IH show ?case
    by auto
next
  case (reachable_key s rnd code)
  from onKeyDown_status [of code rnd s] reachable_key.IH show ?case
    by auto
qed

text \<open>
  Claim C9. No transition assigns the status Win. In every state, the status after
  \<open>gameTick\<close> is the status before it or Loss, and the status after a key event is the
  status before it or Playing; so from a state whose status is not Win neither produces
  a state whose status is Win, and no reachable state has the status Win.
\<close>

theorem win_never_assigned:
  "(gameTick rnd s = Inr s' \<longrightarrow> gameState s' = gameState s \<or> gameState s' = Loss)
   \<and> (gameState (onKeyDown code rnd s) = gameState s
        \<or> gameState (onKeyDown code rnd s) = Playing)
   \<and> (gameState s \<noteq> Win \<and> gameTick rnd s = Inr s' \<longrightarrow> gameState s' \<noteq> Win)
   \<and> (gameState s \<noteq> Win \<longrightarrow> gameState (onKeyDown code rnd s) \<noteq> Win)
   \<and> (reachable s \<longrightarrow> gameState s \<noteq> Win)"
  using gameTick_status [of rnd s s'] onKeyDown_status [of code rnd s] reachable_not_Win [of s]
  by auto

theorem win_never_assigned_witness:
  "reachable (initialState (0, 0))
   \<and> gameTick (0, 0) (initialState (0, 0))
       = Inr \<lparr>gameState = Playing, currentDirection = East, lastDirection = East,
              snake = [\<lparr>x = 11, y = 10\<rparr>], food = \<lparr>x = 0, y = 0\<rparr>\<rparr>
   \<and> gameState (initialState (0, 0)) \<noteq> Win
   \<and> gameState (onKeyDown ''Space'' (0, 0) (initialState (0, 0))) \<noteq> Win"
proof -
  let ?s = "initialState (0, 0)"
  let ?s' = "\<lparr>gameState = Playing, currentDirection = East, lastDirection = East,
              snake = [\<lparr>x = 11, y = 10\<rparr>], food = \<lparr>x = 0, y = 0\<rparr>\<rparr>"
  have r: "reachable ?s"
    by (rule reachable_init) (simp add: validRandom_draws)
  have "snake ?s = \<lparr>x = 10, y = 10\<rparr> # []"
    by (simp add: initialState_def getCenterCoordinate_eq)
  then have t: "gameTick (0, 0) ?s = Inr ?s'"
    by (simp add: gameTick_Cons isOutOfBounds_def gridRows_def gridColumns_def
          initialState_def getCenterCoordinate_eq getRandomCoordinate_draws)
  from win_never_assigned [of "(0, 0)" ?s ?s' "''Space''"] r t show ?thesis
    by simp
qed

end
